theory Spec2Isabelle
  imports Complex_Main "HOL-Library.Multiset"
begin

section \<open>Python values, exceptions and string formatting\<close>

text \<open>
  Python floats are modelled as real numbers (finite values, exact arithmetic), Python
  ints as \<open>int\<close>, \<open>str\<close> as \<open>string\<close>. A dynamically typed value (a JSON document
  loaded by \<open>json.load\<close>, a field of \<open>__dict__\<close>) is a \<open>pyvalue\<close>; a \<open>dict\<close> keeps its
  insertion order, so it is an association list, and its keys are strings (field names
  and JSON object keys).
\<close>

datatype pyvalue =
    PNone
  | PBool bool
  | PInt int
  | PFloat real
  | PStr string
  | PList "pyvalue list"
  | PTuple "pyvalue list"
  | PDict "(string \<times> pyvalue) list"

datatype py_exception =
    ValueError string
  | FileNotFoundError string
  | KeyError string
  | ZeroDivisionError string
  | RuntimeError string

text \<open>\<open>str(e)\<close>: the message of the exception; a \<open>KeyError\<close> prints the repr of its key.\<close>

fun exc_str :: "py_exception \<Rightarrow> string" where
  "exc_str (ValueError m) = m"
| "exc_str (FileNotFoundError m) = m"
| "exc_str (KeyError k) = [CHR 0x27] @ k @ [CHR 0x27]"
| "exc_str (ZeroDivisionError m) = m"
| "exc_str (RuntimeError m) = m"

text \<open>Decimal rendering of an int, as an f-string prints it.\<close>

fun str_nat :: "nat \<Rightarrow> string" where
  "str_nat n =
     (if n < 10 then [''0123456789'' ! n]
      else str_nat (n div 10) @ [''0123456789'' ! (n mod 10)])"

definition str_int :: "int \<Rightarrow> string" where
  "str_int i = (if i < 0 then ''-'' @ str_nat (nat (- i)) else str_nat (nat i))"

section \<open>The data model of \<open>titration/protocol.py\<close> and \<open>titration/config.py\<close>\<close>

text \<open>\<open>TitrationConfig\<close>: the master experiment configuration.\<close>

record TitrationConfig =
  tsplib_dir :: string
  instances :: "string list"
  integrators :: "string list"
  budgets :: "real list"
  seeds :: "int list"
  candidate_k :: int
  aws_hourly_rate :: real

text \<open>
  \<open>ProtocolResult\<close>: one row per run. The field \<open>instance\<close> of the source is named
  \<open>instance_id\<close> here, \<open>instance\<close> being a reserved word.
\<close>

record ProtocolResult =
  instance_id :: string
  integrator :: string
  budget_s :: real
  seed :: int
  best_length :: int
  time_to_best_s :: real
  final_gap_pct :: real
  hk_bound :: int
  wall_time_s :: real
  machine_info :: pyvalue
  compute_cost_usd :: real
  raw_trace :: "(real \<times> int) list"
  deviations :: "string list"
  cycles_explored :: int
  repair_path :: string

text \<open>
  What \<open>get_last_run_diagnostics()\<close> hands back: a dict-like value (it has \<open>get\<close>) or an
  object with attributes; either way only the entries \<open>cycles_explored\<close> and
  \<open>repair_path\<close> are read, each with a default. \<open>DiagRaises\<close> is a call that raises.
\<close>

datatype diagnostics =
    DiagRaises
  | DictLike "int option" "string option"
  | ObjectLike "int option" "string option"

text \<open>
  An integrator is an opaque collaborator. \<open>solve\<close> maps the arguments of the call
  (instance path, time budget, seed, candidate size) to what the call did: it raised, or
  it returned a tour and a trace. \<open>get_last_run_diagnostics\<close> is what the diagnostics
  call made right after that \<open>solve\<close> call does.
\<close>

record Integrator =
  solve :: "string \<Rightarrow> real \<Rightarrow> int \<Rightarrow> int \<Rightarrow> py_exception + (nat list \<times> (real \<times> int) list)"
  get_last_run_diagnostics :: "string \<Rightarrow> real \<Rightarrow> int \<Rightarrow> int \<Rightarrow> diagnostics"

text \<open>
  The state of a \<open>TitrationProtocol\<close> object after \<open>__init__\<close>: the configuration, the
  machine descriptor and the two bound tables loaded once, the integrator registry and
  the results accumulator.
\<close>

record TitrationProtocol =
  cfg :: TitrationConfig
  self_machine_info :: pyvalue
  hk_bounds :: "string \<rightharpoonup> int"
  self_integrators :: "string \<rightharpoonup> Integrator"
  optimal_lengths :: "string \<rightharpoonup> int"
  results :: "ProtocolResult list"

type_synonym trial_spec = "string \<times> string \<times> real \<times> int"

definition instance_path :: "TitrationConfig \<Rightarrow> string \<Rightarrow> string" where
  "instance_path c inst = tsplib_dir c @ ''/'' @ inst @ ''.tsp''"

section \<open>\<open>TitrationProtocol._validate_cfg\<close>\<close>

text \<open>
  The file system is read through \<open>exists\<close>. The loop over the instances raises at the first
  missing file.
\<close>

fun check_instances :: "(string \<Rightarrow> bool) \<Rightarrow> TitrationConfig \<Rightarrow> string list \<Rightarrow> py_exception + unit" where
  "check_instances exists c [] = Inr ()"
| "check_instances exists c (inst # rest) =
     (if \<not> exists (instance_path c inst)
      then Inl (FileNotFoundError (''Missing instance: '' @ instance_path c inst))
      else check_instances exists c rest)"

definition validate_cfg :: "(string \<Rightarrow> bool) \<Rightarrow> TitrationConfig \<Rightarrow> py_exception + unit" where
  "validate_cfg exists c =
     (if length (seeds c) < 5
      then Inl (ValueError (''Minimum 5 seeds required (got '' @ str_nat (length (seeds c)) @ '')''))
      else check_instances exists c (instances c))"

section \<open>\<open>TitrationProtocol.__init__\<close>\<close>

text \<open>The table used when \<open>data/optimal_values.csv\<close> does not exist.\<close>

definition tsplib_known_values :: "string \<rightharpoonup> int" where
  "tsplib_known_values =
     [''eil51'' \<mapsto> 429, ''eil76'' \<mapsto> 538, ''berlin52'' \<mapsto> 7542, ''kroA100'' \<mapsto> 21282]"

text \<open>
  The constructor validates the configuration, then loads the machine descriptor and
  the bound table (given here as loaded), registers the one integrator it builds under
  the name \<open>lkh\<close>, loads the optimal lengths (\<open>optimal_csv\<close> is the content of the CSV
  file when it exists) and starts with no results.
\<close>

definition init ::
  "(string \<Rightarrow> bool) \<Rightarrow> pyvalue \<Rightarrow> (string \<rightharpoonup> int) \<Rightarrow> Integrator \<Rightarrow> (string \<rightharpoonup> int) option
     \<Rightarrow> TitrationConfig \<Rightarrow> py_exception + TitrationProtocol" where
  "init exists machine_specs hk_table lkh optimal_csv c =
     (case validate_cfg exists c of
        Inl e \<Rightarrow> Inl e
      | Inr _ \<Rightarrow>
          Inr \<lparr> cfg = c,
                self_machine_info = machine_specs,
                hk_bounds = hk_table,
                self_integrators = [''lkh'' \<mapsto> lkh],
                optimal_lengths =
                  (case optimal_csv of None \<Rightarrow> tsplib_known_values | Some table \<Rightarrow> table),
                results = [] \<rparr>)"

section \<open>\<open>TitrationProtocol._run_single\<close>\<close>

definition gap_denominator :: "TitrationProtocol \<Rightarrow> string \<Rightarrow> int" where
  "gap_denominator self inst =
     (let optimal = (case optimal_lengths self inst of None \<Rightarrow> 0 | Some v \<Rightarrow> v);
          d = (case hk_bounds self inst of Some h \<Rightarrow> h | None \<Rightarrow> optimal)
      in if d \<le> 0 then 1 else d)"

definition initial_deviations :: "TitrationProtocol \<Rightarrow> string \<Rightarrow> string list" where
  "initial_deviations self inst =
     (let optimal = (case optimal_lengths self inst of None \<Rightarrow> 0 | Some v \<Rightarrow> v)
      in (if hk_bounds self inst = None
          then [''HK bound not computed; using optimal = '' @ str_int optimal] else [])
         @ (if optimal = 0
            then [''Optimal length missing; gap calculation invalid''] else []))"

text \<open>The defensive diagnostics extraction: defaults \<open>0\<close> and \<open>"lkh"\<close>.\<close>

fun extract_diagnostics :: "diagnostics \<Rightarrow> int \<times> string" where
  "extract_diagnostics DiagRaises = (0, ''lkh'')"
| "extract_diagnostics (DictLike c r) =
     ((case c of None \<Rightarrow> 0 | Some v \<Rightarrow> v), (case r of None \<Rightarrow> ''lkh'' | Some v \<Rightarrow> v))"
| "extract_diagnostics (ObjectLike c r) =
     ((case c of None \<Rightarrow> 0 | Some v \<Rightarrow> v), (case r of None \<Rightarrow> ''lkh'' | Some v \<Rightarrow> v))"

text \<open>The record built when \<open>solve\<close> returned (the body of the \<open>try\<close>).\<close>

definition success_result ::
  "TitrationProtocol \<Rightarrow> trial_spec \<Rightarrow> (real \<times> int) list \<Rightarrow> diagnostics \<Rightarrow> ProtocolResult" where
  "success_result self ts trace diag =
     (case ts of (inst, integrator_name, budget, sd) \<Rightarrow>
      let optimal = (case optimal_lengths self inst of None \<Rightarrow> 0 | Some v \<Rightarrow> v);
          length = (case trace of [] \<Rightarrow> - 1 | (t, l) # _ \<Rightarrow> l);
          elapsed = (case trace of [] \<Rightarrow> budget | (t, l) # _ \<Rightarrow> t);
          gap = (real_of_int length - real_of_int (gap_denominator self inst))
                  / real_of_int (gap_denominator self inst) * 100;
          cost_usd = elapsed * aws_hourly_rate (cfg self) / 3600
      in \<lparr> instance_id = inst,
           integrator = integrator_name,
           budget_s = budget,
           seed = sd,
           best_length = length,
           time_to_best_s = elapsed,
           final_gap_pct = gap,
           hk_bound = (case hk_bounds self inst of
                         None \<Rightarrow> optimal
                       | Some h \<Rightarrow> if h = 0 then optimal else h),
           wall_time_s = elapsed,
           machine_info = self_machine_info self,
           compute_cost_usd = cost_usd,
           raw_trace = trace,
           deviations = initial_deviations self inst,
           cycles_explored = fst (extract_diagnostics diag),
           repair_path = snd (extract_diagnostics diag) \<rparr>)"

text \<open>The record built by the \<open>except Exception as e\<close> handler.\<close>

definition failure_result ::
  "TitrationProtocol \<Rightarrow> trial_spec \<Rightarrow> py_exception \<Rightarrow> ProtocolResult" where
  "failure_result self ts e =
     (case ts of (inst, integrator_name, budget, sd) \<Rightarrow>
      \<lparr> instance_id = inst,
        integrator = integrator_name,
        budget_s = budget,
        seed = sd,
        best_length = - 1,
        time_to_best_s = budget,
        final_gap_pct = - 1,
        hk_bound = (case hk_bounds self inst of None \<Rightarrow> 0 | Some h \<Rightarrow> h),
        wall_time_s = budget,
        machine_info = self_machine_info self,
        compute_cost_usd = budget * aws_hourly_rate (cfg self) / 3600,
        raw_trace = [],
        deviations = initial_deviations self inst @ [''Runtime error: '' @ exc_str e],
        cycles_explored = 0,
        repair_path = ''ERROR: '' @ exc_str e \<rparr>)"

text \<open>
  \<open>_run_single\<close>: the lookup \<open>self.integrators[integrator_name]\<close> stands before the
  \<open>try\<close>, so its \<open>KeyError\<close> leaves the function; everything \<open>solve\<close> raises is caught.
\<close>

definition run_single :: "TitrationProtocol \<Rightarrow> trial_spec \<Rightarrow> py_exception + ProtocolResult" where
  "run_single self ts =
     (case ts of (inst, integrator_name, budget, sd) \<Rightarrow>
      (case self_integrators self integrator_name of
         None \<Rightarrow> Inl (KeyError integrator_name)
       | Some solver \<Rightarrow>
           (case solve solver (instance_path (cfg self) inst) budget sd (candidate_k (cfg self)) of
              Inl e \<Rightarrow> Inr (failure_result self ts e)
            | Inr (tour, trace) \<Rightarrow>
                Inr (success_result self ts trace
                       (get_last_run_diagnostics solver
                          (instance_path (cfg self) inst) budget sd (candidate_k (cfg self)))))))"

section \<open>JSON encoding of a record (\<open>json.dumps(result.__dict__)\<close>)\<close>

text \<open>
  The JSON document that one line of the log holds. \<open>json.dumps\<close> and \<open>json.loads\<close> are
  Python's standard codec; they are modelled on documents, by the conversion table of
  the \<open>json\<close> module: a dict is written as an object, a list and a tuple both as an array,
  and an array is read back as a list.
\<close>

datatype json =
    JNull
  | JBool bool
  | JInt int
  | JReal real
  | JString string
  | JArray "json list"
  | JObject "(string \<times> json) list"

primrec json_dumps :: "pyvalue \<Rightarrow> json" where
  "json_dumps PNone = JNull"
| "json_dumps (PBool b) = JBool b"
| "json_dumps (PInt i) = JInt i"
| "json_dumps (PFloat x) = JReal x"
| "json_dumps (PStr s) = JString s"
| "json_dumps (PList xs) = JArray (map json_dumps xs)"
| "json_dumps (PTuple xs) = JArray (map json_dumps xs)"
| "json_dumps (PDict kvs) = JObject (map (map_prod id json_dumps) kvs)"

primrec json_loads :: "json \<Rightarrow> pyvalue" where
  "json_loads JNull = PNone"
| "json_loads (JBool b) = PBool b"
| "json_loads (JInt i) = PInt i"
| "json_loads (JReal x) = PFloat x"
| "json_loads (JString s) = PStr s"
| "json_loads (JArray xs) = PList (map json_loads xs)"
| "json_loads (JObject kvs) = PDict (map (map_prod id json_loads) kvs)"

text \<open>\<open>result.__dict__\<close>: the fields in declaration order; a checkpoint is a tuple.\<close>

definition result_dict :: "ProtocolResult \<Rightarrow> pyvalue" where
  "result_dict r = PDict
     [(''instance'', PStr (instance_id r)),
      (''integrator'', PStr (integrator r)),
      (''budget_s'', PFloat (budget_s r)),
      (''seed'', PInt (seed r)),
      (''best_length'', PInt (best_length r)),
      (''time_to_best_s'', PFloat (time_to_best_s r)),
      (''final_gap_pct'', PFloat (final_gap_pct r)),
      (''hk_bound'', PInt (hk_bound r)),
      (''wall_time_s'', PFloat (wall_time_s r)),
      (''machine_info'', machine_info r),
      (''compute_cost_usd'', PFloat (compute_cost_usd r)),
      (''raw_trace'', PList (map (\<lambda>(t, l). PTuple [PFloat t, PInt l]) (raw_trace r))),
      (''deviations'', PList (map PStr (deviations r))),
      (''cycles_explored'', PInt (cycles_explored r)),
      (''repair_path'', PStr (repair_path r))]"

text \<open>
  The same dict with every checkpoint a two-element list instead of a tuple: the shape
  in which a parsed log line holds the trace.
\<close>

definition result_dict_listed :: "ProtocolResult \<Rightarrow> pyvalue" where
  "result_dict_listed r = PDict
     [(''instance'', PStr (instance_id r)),
      (''integrator'', PStr (integrator r)),
      (''budget_s'', PFloat (budget_s r)),
      (''seed'', PInt (seed r)),
      (''best_length'', PInt (best_length r)),
      (''time_to_best_s'', PFloat (time_to_best_s r)),
      (''final_gap_pct'', PFloat (final_gap_pct r)),
      (''hk_bound'', PInt (hk_bound r)),
      (''wall_time_s'', PFloat (wall_time_s r)),
      (''machine_info'', machine_info r),
      (''compute_cost_usd'', PFloat (compute_cost_usd r)),
      (''raw_trace'', PList (map (\<lambda>(t, l). PList [PFloat t, PInt l]) (raw_trace r))),
      (''deviations'', PList (map PStr (deviations r))),
      (''cycles_explored'', PInt (cycles_explored r)),
      (''repair_path'', PStr (repair_path r))]"

text \<open>A value without tuples, as \<open>json.load\<close> produces it (the machine descriptor).\<close>

primrec tuple_free :: "pyvalue \<Rightarrow> bool" where
  "tuple_free PNone = True"
| "tuple_free (PBool b) = True"
| "tuple_free (PInt i) = True"
| "tuple_free (PFloat x) = True"
| "tuple_free (PStr s) = True"
| "tuple_free (PList xs) = list_all tuple_free xs"
| "tuple_free (PTuple xs) = False"
| "tuple_free (PDict kvs) = list_all (pred_prod (\<lambda>k. True) tuple_free) kvs"

section \<open>\<open>TitrationProtocol.run\<close>\<close>

text \<open>The full factorial design: four nested loops in the configured order.\<close>

definition experiments :: "TitrationConfig \<Rightarrow> trial_spec list" where
  "experiments c =
     [(inst, integrator_name, budget, sd).
        inst \<leftarrow> instances c, integrator_name \<leftarrow> integrators c,
        budget \<leftarrow> budgets c, sd \<leftarrow> seeds c]"

text \<open>
  \<open>as_completed\<close> hands the futures back in completion order, which the pool decides:
  \<open>order\<close> lists the positions of the submitted tasks in the order in which they
  finish (a permutation of \<open>0..<n\<close>).
\<close>

definition as_completed :: "nat list \<Rightarrow> 'a list \<Rightarrow> 'a list" where
  "as_completed order futures = map (\<lambda>i. futures ! i) order"

text \<open>
  The collecting loop: \<open>future.result()\<close> re-raises what the task raised, which ends the
  loop; the records appended before stay in \<open>self.results\<close>.
\<close>

fun collect ::
  "ProtocolResult list \<Rightarrow> (py_exception + ProtocolResult) list
     \<Rightarrow> py_exception option \<times> ProtocolResult list" where
  "collect acc [] = (None, acc)"
| "collect acc (Inl e # rest) = (Some e, acc)"
| "collect acc (Inr r # rest) = collect (acc @ [r]) rest"

text \<open>
  \<open>_instance_metadata\<close> reads each configured instance file; \<open>read_dimension\<close> is what
  that read yields for a path (the parsed dimension, \<open>-1\<close> when reading raised, nothing
  when the file has no dimension line).
\<close>

definition instance_metadata ::
  "(string \<Rightarrow> int option) \<Rightarrow> TitrationConfig \<Rightarrow> string \<rightharpoonup> int" where
  "instance_metadata read_dimension c inst =
     (if inst \<in> set (instances c) then read_dimension (instance_path c inst) else None)"

type_synonym dataframe = "(ProtocolResult \<times> int option) list"

text \<open>
  \<open>_finalize_results\<close>: a frame built from no rows has no column \<open>instance\<close>, and
  selecting it raises.
\<close>

definition finalize_results ::
  "(string \<Rightarrow> int option) \<Rightarrow> TitrationProtocol \<Rightarrow> py_exception + dataframe" where
  "finalize_results read_dimension self =
     (if results self = [] then Inl (KeyError ''instance'')
      else Inr (map (\<lambda>r. (r, instance_metadata read_dimension (cfg self) (instance_id r)))
                  (results self)))"

datatype file_content = JsonLines "json list" | CsvTable dataframe

text \<open>
  \<open>run\<close> takes the object and the files on disk and returns what it returns or raises,
  the object and the files afterwards. Both files are opened for writing at a fixed
  path, which replaces their content.
\<close>

definition run ::
  "(string \<Rightarrow> int option) \<Rightarrow> nat list \<Rightarrow> TitrationProtocol \<Rightarrow> (string \<rightharpoonup> file_content)
     \<Rightarrow> (py_exception + dataframe) \<times> TitrationProtocol \<times> (string \<rightharpoonup> file_content)" where
  "run read_dimension order self fs =
     (let futures = map (run_single self) (experiments (cfg self));
          (raised, res) = collect (results self) (as_completed order futures);
          self' = self\<lparr>results := res\<rparr>
      in case raised of
           Some e \<Rightarrow> (Inl e, self', fs)
         | None \<Rightarrow>
             (case finalize_results read_dimension self' of
                Inl e \<Rightarrow> (Inl e, self', fs)
              | Inr df \<Rightarrow>
                  (Inr df, self',
                   fs(''results/minimal_audit.jsonl'' \<mapsto>
                        JsonLines (map (\<lambda>r. json_dumps (result_dict r)) res),
                      ''results/current_results.csv'' \<mapsto> CsvTable df))))"

definition key_of :: "ProtocolResult \<Rightarrow> trial_spec" where
  "key_of r = (instance_id r, integrator r, budget_s r, seed r)"

section \<open>Resampling and order statistics (numpy)\<close>

text \<open>
  A random generator is a state with one primitive, \<open>draw g n\<close>: an index below \<open>n\<close> and
  the next state. \<open>choice\<close> draws \<open>k\<close> elements of \<open>xs\<close> with replacement.
\<close>

fun choice :: "('g \<Rightarrow> nat \<Rightarrow> nat \<times> 'g) \<Rightarrow> 'g \<Rightarrow> real list \<Rightarrow> nat \<Rightarrow> real list \<times> 'g" where
  "choice draw g xs 0 = ([], g)"
| "choice draw g xs (Suc k) =
     (let (i, g1) = draw g (length xs);
          (rest, g2) = choice draw g1 xs k
      in (xs ! (i mod length xs) # rest, g2))"

definition np_mean :: "real list \<Rightarrow> real" where
  "np_mean xs = sum_list xs / real (length xs)"

definition np_median :: "real list \<Rightarrow> real" where
  "np_median xs =
     (let s = sort xs; n = length s
      in if odd n then s ! (n div 2) else (s ! (n div 2 - 1) + s ! (n div 2)) / 2)"

text \<open>The percentile by linear interpolation between the two closest ranks.\<close>

definition np_percentile :: "real list \<Rightarrow> real \<Rightarrow> real" where
  "np_percentile xs q =
     (let s = sort xs; n = length s;
          pos = q / 100 * real (n - 1);
          lo = nat \<lfloor>pos\<rfloor>;
          hi = min (lo + 1) (n - 1)
      in s ! lo + (pos - real lo) * (s ! hi - s ! lo))"

section \<open>\<open>StatisticalEnforcer\<close> (\<open>titration/statistics.py\<close>)\<close>

record StatisticalResult =
  sr_instance :: string
  integrator_a :: string
  integrator_b :: string
  n_samples :: nat
  p_value :: real
  effect_size_cliffs_delta :: real
  ci_95_lower :: real
  ci_95_upper :: real
  protocol_compliant :: bool

definition n_dominant :: "real list \<Rightarrow> real list \<Rightarrow> int" where
  "n_dominant x y =
     fold (\<lambda>xi acc. fold (\<lambda>yi acc. if xi < yi then acc + 1
                                   else if xi > yi then acc - 1 else acc) y acc) x 0"

definition cliffs_delta :: "real list \<Rightarrow> real list \<Rightarrow> py_exception + real" where
  "cliffs_delta x y =
     (if length x * length y = 0 then Inl (ZeroDivisionError ''division by zero'')
      else Inr (real_of_int (n_dominant x y) / real (length x * length y)))"

text \<open>
  \<open>StatisticalEnforcer.bootstrap_ci\<close> draws from numpy's global generator: the ambient
  state \<open>g\<close> goes in and the advanced state comes out.
\<close>

fun boot_diffs ::
  "('g \<Rightarrow> nat \<Rightarrow> nat \<times> 'g) \<Rightarrow> 'g \<Rightarrow> real list \<Rightarrow> real list \<Rightarrow> nat \<Rightarrow> real list \<times> 'g" where
  "boot_diffs draw g x y 0 = ([], g)"
| "boot_diffs draw g x y (Suc k) =
     (let (x_boot, g1) = choice draw g x (length x);
          (y_boot, g2) = choice draw g1 y (length y);
          (rest, g3) = boot_diffs draw g2 x y k
      in ((np_mean x_boot - np_mean y_boot) # rest, g3))"

definition enforcer_bootstrap_ci ::
  "('g \<Rightarrow> nat \<Rightarrow> nat \<times> 'g) \<Rightarrow> 'g \<Rightarrow> real list \<Rightarrow> real list \<Rightarrow> nat \<Rightarrow> (real \<times> real) \<times> 'g" where
  "enforcer_bootstrap_ci draw g x y n_boot =
     (let (diffs, g') = boot_diffs draw g x y n_boot
      in ((np_percentile diffs (5 / 2), np_percentile diffs (195 / 2)), g'))"

text \<open>\<open>len(set(xs))\<close>.\<close>

definition len_set :: "real list \<Rightarrow> nat" where
  "len_set xs = length (remdups xs)"

text \<open>
  \<open>paired_comparison\<close>. The signed-rank test is scipy's \<open>wilcoxon\<close>, taken as a parameter
  that returns the p-value or raises; nothing in \<open>paired_comparison\<close> catches.
\<close>

definition paired_comparison ::
  "(real list \<Rightarrow> real list \<Rightarrow> py_exception + real) \<Rightarrow> ('g \<Rightarrow> nat \<Rightarrow> nat \<times> 'g) \<Rightarrow> 'g
     \<Rightarrow> real list \<Rightarrow> real list \<Rightarrow> string \<Rightarrow> string \<Rightarrow> string
     \<Rightarrow> (py_exception + StatisticalResult) \<times> 'g" where
  "paired_comparison wilcoxon draw g lengths_a lengths_b inst name_a name_b =
     (let n = length lengths_a in
      if len_set lengths_a = 1 \<or> len_set lengths_b = 1 then
        if len_set lengths_a = len_set lengths_b \<and> len_set lengths_b = 1
           \<and> hd lengths_a = hd lengths_b
        then (Inr \<lparr> sr_instance = inst, integrator_a = name_a, integrator_b = name_b,
                    n_samples = n, p_value = 1, effect_size_cliffs_delta = 0,
                    ci_95_lower = 0, ci_95_upper = 0, protocol_compliant = False \<rparr>, g)
        else (Inr \<lparr> sr_instance = inst, integrator_a = name_a, integrator_b = name_b,
                    n_samples = n, p_value = 1 / 10 ^ 15, effect_size_cliffs_delta = 1,
                    ci_95_lower = 0, ci_95_upper = 0, protocol_compliant = True \<rparr>, g)
      else
        (case wilcoxon lengths_a lengths_b of
           Inl e \<Rightarrow> (Inl e, g)
         | Inr p \<Rightarrow>
             (case cliffs_delta lengths_a lengths_b of
                Inl e \<Rightarrow> (Inl e, g)
              | Inr delta \<Rightarrow>
                  (let (ci, g') = enforcer_bootstrap_ci draw g lengths_a lengths_b 10000
                   in (Inr \<lparr> sr_instance = inst, integrator_a = name_a,
                               integrator_b = name_b, n_samples = n, p_value = p,
                               effect_size_cliffs_delta = delta,
                               ci_95_lower = fst ci, ci_95_upper = snd ci,
                               protocol_compliant =
                                 (n \<ge> 30 \<and> p < 1 / 1000 \<and> \<bar>delta\<bar> > 1 / 10) \<rparr>, g')))))"

section \<open>Summary statistics (\<open>titration/analysis.py\<close>)\<close>

text \<open>
  \<open>bootstrap_ci\<close> of \<open>analysis.py\<close> makes its own generator, \<open>default_rng(42)\<close>, on every
  call, and draws from it alone.
\<close>

fun resample_medians ::
  "('h \<Rightarrow> nat \<Rightarrow> nat \<times> 'h) \<Rightarrow> 'h \<Rightarrow> real list \<Rightarrow> nat \<Rightarrow> real list" where
  "resample_medians draw rng data 0 = []"
| "resample_medians draw rng data (Suc k) =
     (let (sample, rng1) = choice draw rng data (length data)
      in np_median sample # resample_medians draw rng1 data k)"

definition bootstrap_ci ::
  "(nat \<Rightarrow> 'h) \<Rightarrow> ('h \<Rightarrow> nat \<Rightarrow> nat \<times> 'h) \<Rightarrow> real list \<Rightarrow> nat \<Rightarrow> real \<Rightarrow> real \<times> real" where
  "bootstrap_ci default_rng draw data n_resamples confidence =
     (if length data < 2
      then (if length data = 1 then (hd data, hd data) else (0, 0))
      else (let rng = default_rng 42;
                estimates = resample_medians draw rng data n_resamples;
                alpha = 1 - confidence
            in (np_percentile estimates (100 * alpha / 2),
                np_percentile estimates (100 * (1 - alpha / 2)))))"

record summary_row =
  row_instance :: string
  row_integrator :: string
  median_gap :: real
  gap_ci_95 :: "real \<times> real"
  median_cost :: real
  cost_ci_95 :: "real \<times> real"
  n_runs :: nat

text \<open>\<open>Series.unique()\<close>: the distinct values in order of first appearance.\<close>

definition unique :: "'a list \<Rightarrow> 'a list" where
  "unique xs = rev (remdups (rev xs))"

text \<open>
  \<open>compute_summary_statistics\<close>, run in a process whose global generator is in state
  \<open>ambient\<close>; it returns the rows and the global generator's state afterwards.
\<close>

definition compute_summary_statistics ::
  "(nat \<Rightarrow> 'h) \<Rightarrow> ('h \<Rightarrow> nat \<Rightarrow> nat \<times> 'h) \<Rightarrow> 'g \<Rightarrow> ProtocolResult list
     \<Rightarrow> summary_row list \<times> 'g" where
  "compute_summary_statistics default_rng draw ambient df =
     (concat (map (\<lambda>inst.
        let inst_data = filter (\<lambda>r. instance_id r = inst) df
        in map (\<lambda>name.
             let int_data = filter (\<lambda>r. integrator r = name) inst_data;
                 gaps = map final_gap_pct int_data;
                 costs = map compute_cost_usd int_data
             in \<lparr> row_instance = inst,
                  row_integrator = name,
                  median_gap = np_median gaps,
                  gap_ci_95 = bootstrap_ci default_rng draw gaps 1000 (95 / 100),
                  median_cost = np_median costs,
                  cost_ci_95 = bootstrap_ci default_rng draw costs 1000 (95 / 100),
                  n_runs = length gaps \<rparr>)
             (unique (map integrator inst_data)))
        (unique (map instance_id df))),
      ambient)"

section \<open>Notions of the specification\<close>

text \<open>
  A sequence is internally constant when it is not empty and all its values are equal.
\<close>

definition constant_seq :: "real list \<Rightarrow> bool" where
  "constant_seq xs = (xs \<noteq> [] \<and> list_all (\<lambda>x. x = hd xs) xs)"

text \<open>
  The gap denominator in the words of the specification: the HK bound if known, else
  the known optimal length, else 1.
\<close>

definition spec_denominator :: "int option \<Rightarrow> int option \<Rightarrow> int" where
  "spec_denominator hk opt =
     (case hk of Some h \<Rightarrow> h | None \<Rightarrow> (case opt of Some v \<Rightarrow> v | None \<Rightarrow> 1))"

section \<open>Concrete collaborators and inputs\<close>

text \<open>The configuration of the smoke test \<open>test_protocol\<close>.\<close>

definition test_cfg :: TitrationConfig where
  "test_cfg = \<lparr> tsplib_dir = ''data/tsplib'', instances = [''eil51''],
                integrators = [''lkh''], budgets = [1], seeds = [42, 43, 44, 45, 46],
                candidate_k = 30, aws_hourly_rate = 0 \<rparr>"

text \<open>
  Integrators: one that returns a one-checkpoint trace after \<open>elapsed\<close> seconds (as
  \<open>LKHIntegrator.solve\<close> does, its diagnostics an object without the two attributes),
  one whose \<open>solve\<close> raises, and one that returns an empty trace.
\<close>

definition lkh_returning :: "real \<Rightarrow> int \<Rightarrow> Integrator" where
  "lkh_returning elapsed len =
     \<lparr> solve = (\<lambda>path budget sd k. Inr ([0, 1, 2], [(elapsed, len)])),
       get_last_run_diagnostics = (\<lambda>path budget sd k. ObjectLike None None) \<rparr>"

definition lkh_raising :: Integrator where
  "lkh_raising =
     \<lparr> solve = (\<lambda>path budget sd k. Inl (RuntimeError ''LKH did not produce tour file'')),
       get_last_run_diagnostics = (\<lambda>path budget sd k. ObjectLike None None) \<rparr>"

definition empty_trace_solver :: Integrator where
  "empty_trace_solver =
     \<lparr> solve = (\<lambda>path budget sd k. Inr ([0, 1, 2], [])),
       get_last_run_diagnostics = (\<lambda>path budget sd k. DictLike None None) \<rparr>"

definition all_files_exist :: "string \<Rightarrow> bool" where
  "all_files_exist path = True"

definition test_machine :: pyvalue where
  "test_machine = PDict [(''cpu'', PStr ''x86_64''), (''cores'', PInt 6)]"

text \<open>The object \<open>TitrationProtocol(cfg)\<close> with no HK table entries and no CSV of optima.\<close>

definition protocol_of :: "Integrator \<Rightarrow> TitrationConfig \<Rightarrow> TitrationProtocol" where
  "protocol_of lkh c =
     \<lparr> cfg = c, self_machine_info = test_machine, hk_bounds = Map.empty,
       self_integrators = [''lkh'' \<mapsto> lkh], optimal_lengths = tsplib_known_values,
       results = [] \<rparr>"

text \<open>
  A generator whose state is a counter, a signed-rank routine that rejects a vector of
  differences that are all zero (as scipy's \<open>wilcoxon\<close> with its default \<open>zero_method\<close>
  has done), one that returns a given p-value, and one that always raises.
\<close>

definition counter_draw :: "nat \<Rightarrow> nat \<Rightarrow> nat \<times> nat" where
  "counter_draw g n = ((g div 2) mod n, Suc g)"

definition wilcoxon_rejecting_zeros :: "real list \<Rightarrow> real list \<Rightarrow> py_exception + real" where
  "wilcoxon_rejecting_zeros a b =
     (if list_all (\<lambda>(x, y). x - y = 0) (zip a b)
      then Inl (ValueError ''zero_method wilcox does not work if x - y is zero for all elements.'')
      else Inr (1 / 2))"

definition wilcoxon_returning :: "real \<Rightarrow> real list \<Rightarrow> real list \<Rightarrow> py_exception + real" where
  "wilcoxon_returning p a b = Inr p"

definition wilcoxon_raising :: "real list \<Rightarrow> real list \<Rightarrow> py_exception + real" where
  "wilcoxon_raising a b = Inl (ValueError ''not consulted'')"

text \<open>
  Thirty paired tour lengths whose Cliff's delta is \<open>45/900 = 0.05\<close>.
\<close>

definition lengths_lkh :: "real list" where
  "lengths_lkh = replicate 25 429 @ replicate 5 430"

definition lengths_edge_rand :: "real list" where
  "lengths_edge_rand = replicate 24 429 @ [430, 430, 430, 431, 431, 431]"

text \<open>
  Two runs of the smoke-test grid, each by a new object, on the same disk: in the first
  every trial takes half a second, in the second three quarters of a second.
\<close>

definition first_run ::
  "(py_exception + dataframe) \<times> TitrationProtocol \<times> (string \<rightharpoonup> file_content)" where
  "first_run =
     run (\<lambda>path. Some 51) [0, 1, 2, 3, 4]
       (protocol_of (lkh_returning (1 / 2) 429) test_cfg) Map.empty"

definition second_run ::
  "(py_exception + dataframe) \<times> TitrationProtocol \<times> (string \<rightharpoonup> file_content)" where
  "second_run =
     run (\<lambda>path. Some 51) [0, 1, 2, 3, 4]
       (protocol_of (lkh_returning (3 / 4) 429) test_cfg) (snd (snd first_run))"

section \<open>Properties of a trial task\<close>

declare str_nat.simps [simp del]

lemma init_valid:
  "validate_cfg exists c = Inr () \<Longrightarrow>
   init exists machine hk lkh None c =
     Inr \<lparr> cfg = c, self_machine_info = machine, hk_bounds = hk,
           self_integrators = [''lkh'' \<mapsto> lkh], optimal_lengths = tsplib_known_values,
           results = [] \<rparr>"
  by (simp add: init_def)

lemma test_cfg_valid: "validate_cfg all_files_exist (test_cfg\<lparr>integrators := names\<rparr>) = Inr ()"
  by (simp add: validate_cfg_def test_cfg_def all_files_exist_def)

lemma gap_denominator_pos: "0 < gap_denominator self inst"
  by (simp add: gap_denominator_def Let_def)

lemma gap_denominator_spec:
  assumes "\<And>h. hk_bounds self inst = Some h \<Longrightarrow> 0 < h"
    and "\<And>v. optimal_lengths self inst = Some v \<Longrightarrow> 0 < v"
  shows "gap_denominator self inst
           = spec_denominator (hk_bounds self inst) (optimal_lengths self inst)"
  using assms
  by (auto simp: gap_denominator_def spec_denominator_def Let_def split: option.splits)

lemma success_gap_formula:
  "final_gap_pct (success_result self (inst, name, budget, sd) trace diag) =
     (real_of_int (best_length (success_result self (inst, name, budget, sd) trace diag))
        - real_of_int (gap_denominator self inst))
       / real_of_int (gap_denominator self inst) * 100"
  by (simp add: success_result_def Let_def)

lemma raising_solver_gives_sentinel:
  assumes "self_integrators self name = Some solver"
    and "solve solver (instance_path (cfg self) inst) budget sd (candidate_k (cfg self)) = Inl e"
  shows "\<exists>r. run_single self (inst, name, budget, sd) = Inr r \<and> best_length r = - 1
           \<and> final_gap_pct r = - 1 \<and> repair_path r = ''ERROR: '' @ exc_str e
           \<and> (''Runtime error: '' @ exc_str e) \<in> set (deviations r)
           \<and> key_of r = (inst, name, budget, sd)"
  using assms by (simp add: run_single_def failure_result_def key_of_def)

text \<open>
  C10. Every record a trial task returns has \<open>wall_time_s = time_to_best_s\<close>: when
  \<open>solve\<close> returned, both are the elapsed time of the first checkpoint of the trace (the
  budget when the trace is empty), and when \<open>solve\<close> raised, both are the configured budget.
\<close>

theorem C10_wall_time_equals_time_to_best:
  "run_single self (inst, name, budget, sd) = Inr r \<Longrightarrow>
     wall_time_s r = time_to_best_s r \<and>
     (\<forall>solver. self_integrators self name = Some solver \<longrightarrow>
        (case solve solver (instance_path (cfg self) inst) budget sd (candidate_k (cfg self)) of
           Inl e \<Rightarrow> wall_time_s r = budget
         | Inr (tour, trace) \<Rightarrow>
             wall_time_s r = (case trace of [] \<Rightarrow> budget | (t, l) # rest \<Rightarrow> t)))"
  by (auto simp: run_single_def success_result_def failure_result_def Let_def
           split: option.splits sum.splits list.splits prod.splits)

text \<open>The task of the smoke test, with a solver that returns after half a second.\<close>

theorem C10_witness:
  "run_single (protocol_of (lkh_returning (1 / 2) 429) test_cfg) (''eil51'', ''lkh'', 1, 42)
     = Inr (success_result (protocol_of (lkh_returning (1 / 2) 429) test_cfg)
              (''eil51'', ''lkh'', 1, 42) [(1 / 2, 429)] (ObjectLike None None))
   \<and> wall_time_s (success_result (protocol_of (lkh_returning (1 / 2) 429) test_cfg)
              (''eil51'', ''lkh'', 1, 42) [(1 / 2, 429)] (ObjectLike None None)) = 1 / 2
   \<and> time_to_best_s (success_result (protocol_of (lkh_returning (1 / 2) 429) test_cfg)
              (''eil51'', ''lkh'', 1, 42) [(1 / 2, 429)] (ObjectLike None None)) = 1 / 2"
proof -
  have h: "run_single (protocol_of (lkh_returning (1 / 2) 429) test_cfg) (''eil51'', ''lkh'', 1, 42)
     = Inr (success_result (protocol_of (lkh_returning (1 / 2) 429) test_cfg)
              (''eil51'', ''lkh'', 1, 42) [(1 / 2, 429)] (ObjectLike None None))"
    by (simp add: run_single_def protocol_of_def lkh_returning_def)
  have s: "self_integrators (protocol_of (lkh_returning (1 / 2) 429) test_cfg) ''lkh''
             = Some (lkh_returning (1 / 2) 429)"
    by (simp add: protocol_of_def)
  from C10_wall_time_equals_time_to_best [OF h] s h show ?thesis
    by (auto simp: lkh_returning_def)
qed

text \<open>
  C4. A failure during a trial is turned into a sentinel record and never aborts the
  batch. The code does so for everything \<open>solve\<close> raises (lemma
  \<open>raising_solver_gives_sentinel\<close>), but the registry lookup stands before the \<open>try\<close>:
  the configuration of the smoke test with the integrator \<open>eax\<close>, a name the
  configuration type admits, passes validation, the task raises \<open>KeyError\<close>, and \<open>run\<close>
  raises it in turn, with no record collected and nothing written.
\<close>

theorem C4_unregistered_integrator_aborts_run:
  "init all_files_exist test_machine Map.empty (lkh_returning (1 / 2) 429) None
       (test_cfg\<lparr>integrators := [''eax'']\<rparr>)
     = Inr (protocol_of (lkh_returning (1 / 2) 429) (test_cfg\<lparr>integrators := [''eax'']\<rparr>))
   \<and> run_single (protocol_of (lkh_returning (1 / 2) 429) (test_cfg\<lparr>integrators := [''eax'']\<rparr>))
        (''eil51'', ''eax'', 1, 42) = Inl (KeyError ''eax'')
   \<and> run (\<lambda>path. Some 51) [0, 1, 2, 3, 4]
        (protocol_of (lkh_returning (1 / 2) 429) (test_cfg\<lparr>integrators := [''eax'']\<rparr>)) Map.empty
     = (Inl (KeyError ''eax''),
        protocol_of (lkh_returning (1 / 2) 429) (test_cfg\<lparr>integrators := [''eax'']\<rparr>),
        Map.empty)"
proof -
  have a: "run_single (protocol_of (lkh_returning (1 / 2) 429) (test_cfg\<lparr>integrators := [''eax'']\<rparr>))
        (inst, ''eax'', b, s) = Inl (KeyError ''eax'')" for inst b s
    by (simp add: run_single_def protocol_of_def)
  have e: "experiments (test_cfg\<lparr>integrators := [''eax'']\<rparr>)
     = [(''eil51'', ''eax'', 1, 42), (''eil51'', ''eax'', 1, 43), (''eil51'', ''eax'', 1, 44),
        (''eil51'', ''eax'', 1, 45), (''eil51'', ''eax'', 1, 46)]"
    by (simp add: experiments_def test_cfg_def)
  have c: "cfg (protocol_of l c) = c" "results (protocol_of l c) = []" for l c
    by (simp_all add: protocol_of_def)
  show ?thesis
    by (simp add: init_valid [OF test_cfg_valid] protocol_of_def [symmetric] a e c run_def
         as_completed_def Let_def)
qed

text \<open>
  C5. The gap is \<open>(best_length - d) / d * 100\<close> for a positive denominator \<open>d\<close> (lemmas
  \<open>gap_denominator_pos\<close>, \<open>gap_denominator_spec\<close>, \<open>success_gap_formula\<close>), and it is
  \<open>-1\<close> whenever \<open>best_length\<close> is the sentinel \<open>-1\<close>. The last part fails when
  \<open>solve\<close> returns an empty trace: the record has \<open>best_length = -1\<close>, and its gap is
  computed from the sentinel, here \<open>-43000/429\<close>.
\<close>

theorem C5_empty_trace_gap_not_sentinel:
  "run_single (protocol_of empty_trace_solver test_cfg) (''eil51'', ''lkh'', 1, 42)
     = Inr (success_result (protocol_of empty_trace_solver test_cfg)
              (''eil51'', ''lkh'', 1, 42) [] (DictLike None None))
   \<and> best_length (success_result (protocol_of empty_trace_solver test_cfg)
              (''eil51'', ''lkh'', 1, 42) [] (DictLike None None)) = - 1
   \<and> final_gap_pct (success_result (protocol_of empty_trace_solver test_cfg)
              (''eil51'', ''lkh'', 1, 42) [] (DictLike None None)) = - (43000 / 429)
   \<and> final_gap_pct (success_result (protocol_of empty_trace_solver test_cfg)
              (''eil51'', ''lkh'', 1, 42) [] (DictLike None None)) \<noteq> - 1"
  by (simp add: run_single_def protocol_of_def empty_trace_solver_def success_result_def
        gap_denominator_def tsplib_known_values_def Let_def)

section \<open>The full factorial run\<close>

lemma experiments_product:
  "experiments c =
     List.product (instances c) (List.product (integrators c) (List.product (budgets c) (seeds c)))"
  by (simp add: experiments_def List.product_concat_map map_concat comp_def)

lemma length_experiments:
  "length (experiments c) =
     length (instances c) * length (integrators c) * length (budgets c) * length (seeds c)"
  by (simp add: experiments_product)

lemma distinct_experiments:
  "distinct (instances c) \<Longrightarrow> distinct (integrators c) \<Longrightarrow> distinct (budgets c)
     \<Longrightarrow> distinct (seeds c) \<Longrightarrow> distinct (experiments c)"
  by (simp add: experiments_product distinct_product)

lemma experiments_integrator:
  "(inst, name, budget, sd) \<in> set (experiments c) \<Longrightarrow> name \<in> set (integrators c)"
  by (auto simp: experiments_product)

lemma run_single_key:
  assumes "self_integrators self name = Some solver"
  shows "\<exists>r. run_single self (inst, name, budget, sd) = Inr r \<and> key_of r = (inst, name, budget, sd)"
  using assms
  by (auto simp: run_single_def failure_result_def success_result_def key_of_def Let_def
           split: sum.splits)

lemma collect_all_returned: "collect acc (map Inr rs) = (None, acc @ rs)"
  by (induction rs arbitrary: acc) simp_all

lemma mset_nth_permutation:
  assumes "mset order = mset [0..<length xs]"
  shows "mset (map (\<lambda>i. xs ! i) order) = mset xs"
proof -
  have "mset (map (\<lambda>i. xs ! i) order) = image_mset (\<lambda>i. xs ! i) (mset order)" by simp
  also have "\<dots> = image_mset (\<lambda>i. xs ! i) (mset [0..<length xs])" using assms by simp
  also have "\<dots> = mset (map (\<lambda>i. xs ! i) [0..<length xs])" by simp
  also have "\<dots> = mset xs" by (simp add: map_nth)
  finally show ?thesis .
qed

lemma collected_records:
  assumes reg: "\<forall>ts \<in> set (experiments (cfg self)). self_integrators self (fst (snd ts)) \<noteq> None"
    and perm: "mset order = mset [0..<length (experiments (cfg self))]"
  shows "\<exists>rs. collect acc (as_completed order (map (run_single self) (experiments (cfg self))))
                 = (None, acc @ rs)
             \<and> map key_of rs = map (\<lambda>i. experiments (cfg self) ! i) order"
proof -
  let ?xs = "experiments (cfg self)"
  let ?rs = "map (\<lambda>i. projr (run_single self (?xs ! i))) order"
  have ok: "\<exists>r. run_single self ts = Inr r \<and> key_of r = ts" if "ts \<in> set ?xs" for ts
  proof -
    obtain inst name budget sd where ts: "ts = (inst, name, budget, sd)" by (cases ts) auto
    with that reg obtain solver where "self_integrators self name = Some solver" by fastforce
    from run_single_key [OF this] ts show ?thesis by simp
  qed
  have "set order = {0..<length ?xs}"
    using perm by (metis mset_eq_setD set_upt)
  then have inr: "i < length ?xs" if "i \<in> set order" for i using that by simp
  have step: "run_single self (?xs ! i) = Inr (projr (run_single self (?xs ! i)))
                \<and> key_of (projr (run_single self (?xs ! i))) = ?xs ! i"
    if "i \<in> set order" for i
  proof -
    have "?xs ! i \<in> set ?xs" using inr [OF that] by simp
    from ok [OF this] show ?thesis by auto
  qed
  have "map (\<lambda>i. map (run_single self) ?xs ! i) order = map Inr ?rs"
    using step inr by (simp add: comp_def)
  then have "as_completed order (map (run_single self) ?xs) = map Inr ?rs"
    by (simp add: as_completed_def)
  moreover have "map key_of ?rs = map (\<lambda>i. ?xs ! i) order"
    using step by (simp add: comp_def)
  ultimately show ?thesis using collect_all_returned by metis
qed


lemma init_fields:
  assumes "init exists machine hk lkh optimal_csv c = Inr self"
  shows "cfg self = c" and "self_integrators self = [''lkh'' \<mapsto> lkh]" and "results self = []"
    and "5 \<le> length (seeds c)"
  using assms by (auto simp: init_def validate_cfg_def split: sum.splits if_splits)

text \<open>
  C1. For a configuration that passes validation, \<open>run\<close> on the new object collects one
  record per entry of the grid, whatever the trials do. As the code has it: when the
  configuration names no integrator but the registered \<open>lkh\<close>, the number of records is
  \<open>|instances| * |integrators| * |budgets| * |seeds|\<close>, the keys of the records are the
  entries of the grid with their multiplicities (in whatever order the tasks
  complete), each key occurs once when no configured list repeats a value, and a
  non-empty grid yields a frame with one row per record.
\<close>

theorem C1_one_record_per_grid_entry:
  assumes "init exists machine hk lkh optimal_csv c = Inr self"
    and "set (integrators c) \<subseteq> {''lkh''}"
    and "mset order = mset [0..<length (experiments c)]"
    and "run read_dimension order self fs = (ret, self', fs')"
  shows "length (results self')
           = length (instances c) * length (integrators c) * length (budgets c) * length (seeds c)
       \<and> mset (map key_of (results self')) = mset (experiments c)
       \<and> (distinct (instances c) \<and> distinct (integrators c) \<and> distinct (budgets c)
            \<and> distinct (seeds c) \<longrightarrow> distinct (map key_of (results self')))
       \<and> (experiments c \<noteq> [] \<longrightarrow> (\<exists>df. ret = Inr df \<and> map fst df = results self'))"
proof -
  note f = init_fields [OF assms(1)]
  have reg: "\<forall>ts \<in> set (experiments (cfg self)). self_integrators self (fst (snd ts)) \<noteq> None"
    using experiments_integrator assms(2) f(1,2) by fastforce
  from collected_records [of self order "results self", OF reg] assms(3) f(1)
  obtain rs where rs:
    "collect (results self) (as_completed order (map (run_single self) (experiments c))) = (None, rs)"
    "map key_of rs = map (\<lambda>i. experiments c ! i) order"
    using f(3) by auto
  have res: "results self' = rs"
    using assms(4) rs(1) f(1)
    by (auto simp: run_def Let_def split: sum.splits)
  have m: "mset (map key_of rs) = mset (experiments c)"
    using rs(2) mset_nth_permutation [OF assms(3)] by simp
  have l: "length rs = length (experiments c)"
    using m by (metis length_map size_mset)
  have d: "distinct (map key_of rs)" if "distinct (experiments c)"
    using m that by (metis mset_eq_imp_distinct_iff)
  have r: "\<exists>df. ret = Inr df \<and> map fst df = rs" if "experiments c \<noteq> []"
  proof -
    have "rs \<noteq> []" using l that by auto
    then show ?thesis
      using assms(4) rs(1) f(1)
      by (auto simp: run_def Let_def finalize_results_def comp_def split: sum.splits)
  qed
  show ?thesis
    using res m l d r distinct_experiments by (simp add: length_experiments)
qed

lemma protocol_of_init:
  "validate_cfg exists c = Inr () \<Longrightarrow>
     init exists test_machine Map.empty lkh None c = Inr (protocol_of lkh c)"
  by (simp add: init_def protocol_of_def)

lemma experiments_test_cfg:
  "experiments (test_cfg\<lparr>seeds := [a, b, c, d, e]\<rparr>)
     = [(''eil51'', ''lkh'', 1, a), (''eil51'', ''lkh'', 1, b), (''eil51'', ''lkh'', 1, c),
        (''eil51'', ''lkh'', 1, d), (''eil51'', ''lkh'', 1, e)]"
  by (simp add: experiments_def test_cfg_def)

text \<open>The smoke-test grid with a solver that fails every trial: five sentinel records.\<close>

theorem C1_witness:
  "length (results (fst (snd (run (\<lambda>path. Some 51) [4, 2, 0, 1, 3]
             (protocol_of lkh_raising test_cfg) Map.empty)))) = 5
   \<and> mset (map key_of (results (fst (snd (run (\<lambda>path. Some 51) [4, 2, 0, 1, 3]
             (protocol_of lkh_raising test_cfg) Map.empty)))))
       = mset (experiments test_cfg)
   \<and> map best_length (results (fst (snd (run (\<lambda>path. Some 51) [4, 2, 0, 1, 3]
             (protocol_of lkh_raising test_cfg) Map.empty)))) = [- 1, - 1, - 1, - 1, - 1]"
proof -
  have v: "validate_cfg all_files_exist test_cfg = Inr ()"
    by (simp add: validate_cfg_def test_cfg_def all_files_exist_def)
  have i: "set (integrators test_cfg) \<subseteq> {''lkh''}" by (simp add: test_cfg_def)
  have e: "experiments test_cfg
     = [(''eil51'', ''lkh'', 1, 42), (''eil51'', ''lkh'', 1, 43), (''eil51'', ''lkh'', 1, 44),
        (''eil51'', ''lkh'', 1, 45), (''eil51'', ''lkh'', 1, 46)]"
    by (simp add: experiments_def test_cfg_def)
  have u: "[0..<5] = [0, 1, 2, 3, 4::nat]" by code_simp
  have n: "length (experiments test_cfg) = 5" by (simp add: e)
  have p: "mset [4, 2, 0, 1, 3] = mset [0..<length (experiments test_cfg)]"
    by (simp only: n u) simp
  have l: "length (instances test_cfg) * length (integrators test_cfg)
             * length (budgets test_cfg) * length (seeds test_cfg) = 5"
    by (simp add: test_cfg_def)
  have b: "map best_length (results (fst (snd (run (\<lambda>path. Some 51) [4, 2, 0, 1, 3]
             (protocol_of lkh_raising test_cfg) Map.empty)))) = [- 1, - 1, - 1, - 1, - 1]"
    by (simp add: run_def e as_completed_def run_single_def protocol_of_def lkh_raising_def
          failure_result_def Let_def finalize_results_def split: prod.splits)
  have r: "run (\<lambda>path. Some 51) [4, 2, 0, 1, 3] (protocol_of lkh_raising test_cfg) Map.empty
     = (fst (run (\<lambda>path. Some 51) [4, 2, 0, 1, 3] (protocol_of lkh_raising test_cfg) Map.empty),
        fst (snd (run (\<lambda>path. Some 51) [4, 2, 0, 1, 3] (protocol_of lkh_raising test_cfg) Map.empty)),
        snd (snd (run (\<lambda>path. Some 51) [4, 2, 0, 1, 3] (protocol_of lkh_raising test_cfg) Map.empty)))"
    by simp
  from C1_one_record_per_grid_entry [OF protocol_of_init [OF v] i p r]
  show ?thesis using l b by simp
qed


text \<open>
  As stated, with each key exactly once, the statement fails for a valid configuration whose
  seed list repeats a value: the five records carry the same key.
\<close>

theorem C1_repeated_seed_repeats_key:
  "init all_files_exist test_machine Map.empty (lkh_returning (1 / 2) 429) None
       (test_cfg\<lparr>seeds := [7, 7, 7, 7, 7]\<rparr>)
     = Inr (protocol_of (lkh_returning (1 / 2) 429) (test_cfg\<lparr>seeds := [7, 7, 7, 7, 7]\<rparr>))
   \<and> map key_of (results (fst (snd (run (\<lambda>path. Some 51) [0, 1, 2, 3, 4]
          (protocol_of (lkh_returning (1 / 2) 429) (test_cfg\<lparr>seeds := [7, 7, 7, 7, 7]\<rparr>))
          Map.empty))))
     = [(''eil51'', ''lkh'', 1, 7), (''eil51'', ''lkh'', 1, 7), (''eil51'', ''lkh'', 1, 7),
        (''eil51'', ''lkh'', 1, 7), (''eil51'', ''lkh'', 1, 7)]
   \<and> \<not> distinct (map key_of (results (fst (snd (run (\<lambda>path. Some 51) [0, 1, 2, 3, 4]
          (protocol_of (lkh_returning (1 / 2) 429) (test_cfg\<lparr>seeds := [7, 7, 7, 7, 7]\<rparr>))
          Map.empty)))))"
proof -
  have v: "validate_cfg all_files_exist (test_cfg\<lparr>seeds := [7, 7, 7, 7, 7]\<rparr>) = Inr ()"
    by (simp add: validate_cfg_def test_cfg_def all_files_exist_def)
  have k: "map key_of (results (fst (snd (run (\<lambda>path. Some 51) [0, 1, 2, 3, 4]
          (protocol_of (lkh_returning (1 / 2) 429) (test_cfg\<lparr>seeds := [7, 7, 7, 7, 7]\<rparr>))
          Map.empty))))
     = [(''eil51'', ''lkh'', 1, 7), (''eil51'', ''lkh'', 1, 7), (''eil51'', ''lkh'', 1, 7),
        (''eil51'', ''lkh'', 1, 7), (''eil51'', ''lkh'', 1, 7)]"
    by (simp add: run_def experiments_test_cfg as_completed_def run_single_def protocol_of_def
          lkh_returning_def success_result_def key_of_def Let_def finalize_results_def
          split: prod.splits)
  show ?thesis using protocol_of_init [OF v] k by simp
qed

section \<open>The audit log\<close>

lemma loads_dumps_tuple_free: "tuple_free v \<Longrightarrow> json_loads (json_dumps v) = v"
proof (induction v)
  case (PList xs)
  then show ?case by (simp add: list_all_iff map_idI)
next
  case (PDict kvs)
  have "map_prod id json_loads (map_prod id json_dumps kv) = kv" if "kv \<in> set kvs" for kv
  proof (cases kv)
    case (Pair k v)
    with that PDict.prems have "tuple_free v" by (auto simp: list_all_iff)
    moreover from that Pair have "v \<in> Basic_BNFs.snds kv" by simp
    ultimately show ?thesis using PDict.IH [OF that] Pair by simp
  qed
  then show ?case by (simp add: comp_def map_idI)
qed simp_all

lemma checkpoints_read_back:
  "map (json_loads \<circ> json_dumps) (map (\<lambda>(t, l). PTuple [PFloat t, PInt l]) trace)
     = map (\<lambda>(t, l). PList [PFloat t, PInt l]) trace"
  by (induction trace) auto

lemma strings_read_back: "map (json_loads \<circ> json_dumps) (map PStr xs) = map PStr xs"
  by (induction xs) auto

text \<open>
  C6. Writing a record as one line of the log and parsing the line gives every field
  back. As the code has it: a checkpoint of \<open>raw_trace\<close> is a tuple, JSON has arrays
  only, and the parsed line holds each checkpoint as a two-element list with the same
  elapsed time and length in the same order; every other field is read back as it was
  written (the machine descriptor being a value loaded from JSON), and a record with an
  empty trace is read back unchanged.
\<close>

theorem C6_log_line_read_back:
  "tuple_free (machine_info r) \<Longrightarrow>
     json_loads (json_dumps (result_dict r)) = result_dict_listed r
     \<and> (raw_trace r = [] \<longrightarrow> json_loads (json_dumps (result_dict r)) = result_dict r)"
  using checkpoints_read_back [of "raw_trace r"] strings_read_back [of "deviations r"]
  by (auto simp: result_dict_def result_dict_listed_def loads_dumps_tuple_free)

text \<open>The record of the smoke-test task, and a failed one.\<close>

theorem C6_witness:
  "json_loads (json_dumps (result_dict (success_result (protocol_of (lkh_returning (1 / 2) 429) test_cfg)
       (''eil51'', ''lkh'', 1, 42) [(1 / 2, 429)] (ObjectLike None None))))
     = result_dict_listed (success_result (protocol_of (lkh_returning (1 / 2) 429) test_cfg)
         (''eil51'', ''lkh'', 1, 42) [(1 / 2, 429)] (ObjectLike None None))
   \<and> json_loads (json_dumps (result_dict (failure_result (protocol_of lkh_raising test_cfg)
       (''eil51'', ''lkh'', 1, 42) (RuntimeError ''LKH did not produce tour file''))))
     = result_dict (failure_result (protocol_of lkh_raising test_cfg)
         (''eil51'', ''lkh'', 1, 42) (RuntimeError ''LKH did not produce tour file''))"
proof -
  have a: "tuple_free (machine_info (success_result (protocol_of (lkh_returning (1 / 2) 429) test_cfg)
       (''eil51'', ''lkh'', 1, 42) [(1 / 2, 429)] (ObjectLike None None)))"
    by (simp add: success_result_def protocol_of_def test_machine_def Let_def)
  have b: "tuple_free (machine_info (failure_result (protocol_of lkh_raising test_cfg)
       (''eil51'', ''lkh'', 1, 42) (RuntimeError ''LKH did not produce tour file'')))"
    by (simp add: failure_result_def protocol_of_def test_machine_def)
  have c: "raw_trace (failure_result (protocol_of lkh_raising test_cfg)
       (''eil51'', ''lkh'', 1, 42) (RuntimeError ''LKH did not produce tour file'')) = []"
    by (simp add: failure_result_def)
  from C6_log_line_read_back [OF a] C6_log_line_read_back [OF b] c show ?thesis by blast
qed

text \<open>
  As stated, with every field reproduced exactly, the statement fails on a record with one
  checkpoint: the trace read back is a list of lists, which is not the list of tuples
  that was written.
\<close>

theorem C6_checkpoint_tuple_read_back_as_list:
  "json_loads (json_dumps (result_dict (success_result (protocol_of (lkh_returning (1 / 2) 429) test_cfg)
       (''eil51'', ''lkh'', 1, 42) [(1 / 2, 429)] (ObjectLike None None))))
     \<noteq> result_dict (success_result (protocol_of (lkh_returning (1 / 2) 429) test_cfg)
         (''eil51'', ''lkh'', 1, 42) [(1 / 2, 429)] (ObjectLike None None))"
  by (simp add: result_dict_def success_result_def Let_def)

lemma collect_extends: "\<exists>new. snd (collect acc xs) = acc @ new"
proof (induction xs arbitrary: acc)
  case Nil
  then show ?case by simp
next
  case (Cons x xs)
  show ?case
  proof (cases x)
    case (Inl e)
    then show ?thesis by simp
  next
    case (Inr r)
    from Cons.IH [of "acc @ [r]"] obtain new where "snd (collect (acc @ [r]) xs) = (acc @ [r]) @ new"
      by blast
    with Inr show ?thesis by simp
  qed
qed

text \<open>
  What a \<open>run\<close> that returns does to the disk: it has replaced the content of the one
  file \<open>results/minimal_audit.jsonl\<close>, whatever it was, by one line per record that the
  object has accumulated (the records it held before the call, then the new ones), has
  replaced \<open>results/current_results.csv\<close>, and has left every other file alone.
\<close>

lemma run_rewrites_the_log:
  "run read_dimension order self fs = (Inr df, self', fs') \<Longrightarrow>
     fs' ''results/minimal_audit.jsonl''
       = Some (JsonLines (map (\<lambda>r. json_dumps (result_dict r)) (results self')))
     \<and> fs' ''results/current_results.csv'' = Some (CsvTable df)
     \<and> (\<exists>new. results self' = results self @ new)
     \<and> (\<forall>path. path \<noteq> ''results/minimal_audit.jsonl'' \<and> path \<noteq> ''results/current_results.csv''
           \<longrightarrow> fs' path = fs path)"
  using collect_extends [of "results self"
          "as_completed order (map (run_single self) (experiments (cfg self)))"]
  by (auto simp: run_def Let_def split: prod.splits option.splits sum.splits)


lemma experiments_smoke:
  "experiments test_cfg
     = [(''eil51'', ''lkh'', 1, 42), (''eil51'', ''lkh'', 1, 43), (''eil51'', ''lkh'', 1, 44),
        (''eil51'', ''lkh'', 1, 45), (''eil51'', ''lkh'', 1, 46)]"
  by (simp add: experiments_def test_cfg_def)

lemma run_single_returning:
  "run_single (protocol_of (lkh_returning t len) test_cfg) (inst, ''lkh'', b, sd)
     = Inr (success_result (protocol_of (lkh_returning t len) test_cfg) (inst, ''lkh'', b, sd)
              [(t, len)] (ObjectLike None None))"
  by (simp add: run_single_def protocol_of_def lkh_returning_def)

lemma run_returning:
  "run rd [0, 1, 2, 3, 4] (protocol_of (lkh_returning t len) test_cfg) fs
     = (Inr (map (\<lambda>sd. (success_result (protocol_of (lkh_returning t len) test_cfg)
                          (''eil51'', ''lkh'', 1, sd) [(t, len)] (ObjectLike None None),
                        rd ''data/tsplib/eil51.tsp'')) [42, 43, 44, 45, 46]),
        (protocol_of (lkh_returning t len) test_cfg)
          \<lparr>results := map (\<lambda>sd. success_result (protocol_of (lkh_returning t len) test_cfg)
                          (''eil51'', ''lkh'', 1, sd) [(t, len)] (ObjectLike None None))
                        [42, 43, 44, 45, 46]\<rparr>,
        fs(''results/minimal_audit.jsonl'' \<mapsto>
             JsonLines (map (\<lambda>sd. json_dumps (result_dict
                (success_result (protocol_of (lkh_returning t len) test_cfg)
                          (''eil51'', ''lkh'', 1, sd) [(t, len)] (ObjectLike None None))))
                [42, 43, 44, 45, 46]),
           ''results/current_results.csv'' \<mapsto>
             CsvTable (map (\<lambda>sd. (success_result (protocol_of (lkh_returning t len) test_cfg)
                          (''eil51'', ''lkh'', 1, sd) [(t, len)] (ObjectLike None None),
                        rd ''data/tsplib/eil51.tsp'')) [42, 43, 44, 45, 46])))"
proof -
  have c: "cfg (protocol_of l c) = c" "results (protocol_of l c) = []" for l c
    by (simp_all add: protocol_of_def)
  have i: "instance_id (success_result self (inst, name, b, sd) tr d) = inst"
    for self inst name b sd tr d
    by (simp add: success_result_def Let_def)
  have m: "instance_metadata rd test_cfg ''eil51'' = rd ''data/tsplib/eil51.tsp''"
    by (simp add: instance_metadata_def instance_path_def test_cfg_def)
  show ?thesis
    by (simp add: run_def c experiments_smoke as_completed_def run_single_returning
          finalize_results_def i m Let_def)
qed

text \<open>The first of the two runs, on an empty disk.\<close>

lemma first_run_writes_log:
  "snd (snd first_run) ''results/minimal_audit.jsonl''
     = Some (JsonLines (map (\<lambda>r. json_dumps (result_dict r)) (results (fst (snd first_run)))))
   \<and> length (results (fst (snd first_run))) = 5
   \<and> snd (snd first_run) ''data/hk_bounds.json'' = None"
proof -
  obtain df where "first_run = (Inr df, fst (snd first_run), snd (snd first_run))"
    unfolding first_run_def run_returning by simp
  from run_rewrites_the_log [OF this [unfolded first_run_def]]
  have "snd (snd first_run) ''results/minimal_audit.jsonl''
     = Some (JsonLines (map (\<lambda>r. json_dumps (result_dict r)) (results (fst (snd first_run)))))"
    by (simp add: first_run_def)
  moreover have "length (results (fst (snd first_run))) = 5"
    "snd (snd first_run) ''data/hk_bounds.json'' = None"
    unfolding first_run_def run_returning by simp_all
  ultimately show ?thesis by simp
qed

text \<open>
  C7. Running the grid again produces a new log and leaves the log written by the
  earlier \<open>run\<close> unchanged. The code opens the fixed path
  \<open>results/minimal_audit.jsonl\<close> for writing: when the smoke-test grid is run again by a
  new object, the file holds the five records of the second run where it held the five
  records of the first.
\<close>

theorem C7_second_run_overwrites_first_log:
  "snd (snd first_run) ''results/minimal_audit.jsonl''
     = Some (JsonLines (map (\<lambda>sd. json_dumps (result_dict
          (success_result (protocol_of (lkh_returning (1 / 2) 429) test_cfg)
             (''eil51'', ''lkh'', 1, sd) [(1 / 2, 429)] (ObjectLike None None))))
        [42, 43, 44, 45, 46]))
   \<and> snd (snd second_run) ''results/minimal_audit.jsonl''
     = Some (JsonLines (map (\<lambda>sd. json_dumps (result_dict
          (success_result (protocol_of (lkh_returning (3 / 4) 429) test_cfg)
             (''eil51'', ''lkh'', 1, sd) [(3 / 4, 429)] (ObjectLike None None))))
        [42, 43, 44, 45, 46]))
   \<and> snd (snd second_run) ''results/minimal_audit.jsonl''
       \<noteq> snd (snd first_run) ''results/minimal_audit.jsonl''"
proof -
  have "json_dumps (result_dict
          (success_result (protocol_of (lkh_returning (3 / 4) 429) test_cfg)
             (''eil51'', ''lkh'', 1, 42) [(3 / 4, 429)] (ObjectLike None None)))
     \<noteq> json_dumps (result_dict
          (success_result (protocol_of (lkh_returning (1 / 2) 429) test_cfg)
             (''eil51'', ''lkh'', 1, 42) [(1 / 2, 429)] (ObjectLike None None)))"
    by (simp add: result_dict_def success_result_def Let_def)
  then show ?thesis
    unfolding first_run_def second_run_def run_returning by simp
qed

section \<open>The statistical enforcer\<close>

lemma len_set_constant: "len_set xs = 1 \<longleftrightarrow> constant_seq xs"
proof -
  have "len_set xs = card (set xs)"
    by (simp add: len_set_def length_remdups_card_conv)
  moreover have "card (set xs) = 1 \<longleftrightarrow> constant_seq xs"
  proof
    assume "card (set xs) = 1"
    then obtain c where c: "set xs = {c}" by (auto simp: card_1_singleton_iff)
    then have "xs \<noteq> []" by auto
    moreover from this c have "hd xs = c" by (metis hd_in_set singletonD)
    ultimately show "constant_seq xs" using c by (auto simp: constant_seq_def list_all_iff)
  next
    assume "constant_seq xs"
    then have "set xs = {hd xs}" by (auto simp: constant_seq_def list_all_iff)
    then show "card (set xs) = 1" by simp
  qed
  ultimately show ?thesis by simp
qed

text \<open>The two branches of \<open>paired_comparison\<close>, in terms of constant sequences.\<close>

lemma paired_comparison_degenerate:
  assumes "constant_seq a \<or> constant_seq b"
  shows "paired_comparison W draw g a b inst na nb =
     (Inr \<lparr> sr_instance = inst, integrator_a = na, integrator_b = nb, n_samples = length a,
            p_value = (if constant_seq a \<and> constant_seq b \<and> hd a = hd b then 1 else 1 / 10 ^ 15),
            effect_size_cliffs_delta =
              (if constant_seq a \<and> constant_seq b \<and> hd a = hd b then 0 else 1),
            ci_95_lower = 0, ci_95_upper = 0,
            protocol_compliant = (\<not> (constant_seq a \<and> constant_seq b \<and> hd a = hd b)) \<rparr>, g)"
proof -
  have c: "(len_set a = 1) = constant_seq a" "(len_set b = 1) = constant_seq b"
    by (simp_all only: len_set_constant)
  have e: "(len_set a = len_set b \<and> constant_seq b \<and> hd a = hd b)
             = (constant_seq a \<and> constant_seq b \<and> hd a = hd b)"
    by (auto simp: c [symmetric])
  show ?thesis
    unfolding paired_comparison_def Let_def c e using assms by simp
qed

lemma paired_comparison_general:
  assumes "\<not> constant_seq a" and "\<not> constant_seq b"
  shows "paired_comparison W draw g a b inst na nb =
     (case W a b of
        Inl e \<Rightarrow> (Inl e, g)
      | Inr p \<Rightarrow>
          (case cliffs_delta a b of
             Inl e \<Rightarrow> (Inl e, g)
           | Inr delta \<Rightarrow>
               (Inr \<lparr> sr_instance = inst, integrator_a = na, integrator_b = nb,
                      n_samples = length a, p_value = p, effect_size_cliffs_delta = delta,
                      ci_95_lower = fst (fst (enforcer_bootstrap_ci draw g a b 10000)),
                      ci_95_upper = snd (fst (enforcer_bootstrap_ci draw g a b 10000)),
                      protocol_compliant = (length a \<ge> 30 \<and> p < 1 / 1000 \<and> \<bar>delta\<bar> > 1 / 10) \<rparr>,
                snd (enforcer_bootstrap_ci draw g a b 10000))))"
proof -
  have c: "(len_set a = 1) = constant_seq a" "(len_set b = 1) = constant_seq b"
    by (simp_all only: len_set_constant)
  show ?thesis
    unfolding paired_comparison_def Let_def c using assms
    by (simp add: case_prod_beta split: sum.splits)
qed

text \<open>Cliff's delta of two constant sequences is the sign of the separation.\<close>

lemma inner_fold_replicate:
  "fold (\<lambda>yi acc. if c < yi then acc + 1 else if c > yi then acc - 1 else acc)
        (replicate k d) (acc::int)
     = acc + (if c < d then int k else if c > d then - int k else 0)"
  by (induction k arbitrary: acc) (auto simp del: fold_replicate simp: replicate_Suc)

lemma n_dominant_replicate:
  "n_dominant (replicate m c) (replicate k d)
     = int m * (if c < d then int k else if c > d then - int k else 0)"
proof -
  have "fold (\<lambda>xi acc. fold (\<lambda>yi acc. if xi < yi then acc + 1
                                   else if xi > yi then acc - 1 else acc) (replicate k d) acc)
          (replicate m c) (acc::int)
        = acc + int m * (if c < d then int k else if c > d then - int k else 0)" for acc
    by (induction m arbitrary: acc)
       (simp_all del: fold_replicate add: replicate_Suc inner_fold_replicate algebra_simps)
  from this [of 0] show ?thesis by (simp add: n_dominant_def)
qed

lemma constant_seq_replicate: "constant_seq xs \<Longrightarrow> xs = replicate (length xs) (hd xs)"
  unfolding constant_seq_def list_all_iff by (simp add: replicate_length_same)

lemma cliffs_delta_constant:
  assumes "constant_seq a" and "constant_seq b"
  shows "cliffs_delta a b = Inr (if hd a < hd b then 1 else if hd a > hd b then - 1 else 0)"
proof -
  from assms have la: "0 < length a" and lb: "0 < length b"
    by (auto simp: constant_seq_def)
  have "n_dominant a b
      = int (length a) * (if hd a < hd b then int (length b)
                          else if hd a > hd b then - int (length b) else 0)"
    using n_dominant_replicate [of "length a" "hd a" "length b" "hd b"]
      constant_seq_replicate [OF assms(1)] constant_seq_replicate [OF assms(2)] by simp
  then show ?thesis using la lb by (simp add: cliffs_delta_def)
qed


lemma n_dominant_eval: "n_dominant lengths_lkh lengths_edge_rand = 45"
  by code_simp

lemma cliffs_delta_eval: "cliffs_delta lengths_lkh lengths_edge_rand = Inr (1 / 20)"
  by (simp add: cliffs_delta_def n_dominant_eval) (simp add: lengths_lkh_def lengths_edge_rand_def)

lemma thirty_lengths:
  "length lengths_lkh = 30" "\<not> constant_seq lengths_lkh" "\<not> constant_seq lengths_edge_rand"
  by (auto simp: lengths_lkh_def lengths_edge_rand_def constant_seq_def list_all_iff)

lemma paired_comparison_thirty:
  "fst (paired_comparison (wilcoxon_returning p) draw g lengths_lkh lengths_edge_rand inst na nb) =
     Inr \<lparr> sr_instance = inst, integrator_a = na, integrator_b = nb,
           n_samples = 30, p_value = p, effect_size_cliffs_delta = 1 / 20,
           ci_95_lower = fst (fst (enforcer_bootstrap_ci draw g lengths_lkh lengths_edge_rand 10000)),
           ci_95_upper = snd (fst (enforcer_bootstrap_ci draw g lengths_lkh lengths_edge_rand 10000)),
           protocol_compliant = False \<rparr>"
  by (simp add: paired_comparison_general thirty_lengths cliffs_delta_eval wilcoxon_returning_def)

lemma constant_555: "constant_seq [5, 5, 5]" "constant_seq [9, 9, 9]" "\<not> constant_seq [1, 2, 3]"
  by (simp_all add: constant_seq_def)

text \<open>
  C2. \<open>protocol_compliant\<close> holds exactly when \<open>n_samples \<ge> 30\<close>, \<open>p_value < 0.001\<close> and
  \<open>|delta| > 0.1\<close> all hold. As the code has it: the sample size is part of the gate in
  the general computation only; a result of the degenerate branch (some sequence
  constant) is compliant exactly when its p-value and effect size pass, whatever \<open>n\<close> is.
\<close>

theorem C2_compliance_gate:
  "fst (paired_comparison W draw g a b inst na nb) = Inr r \<Longrightarrow>
     protocol_compliant r =
       (p_value r < 1 / 1000 \<and> \<bar>effect_size_cliffs_delta r\<bar> > 1 / 10
        \<and> (n_samples r \<ge> 30 \<or> constant_seq a \<or> constant_seq b))"
proof (cases "constant_seq a \<or> constant_seq b")
  case True
  assume "fst (paired_comparison W draw g a b inst na nb) = Inr r"
  with True show ?thesis
    by (auto simp: paired_comparison_degenerate)
next
  case False
  assume "fst (paired_comparison W draw g a b inst na nb) = Inr r"
  with False show ?thesis
    by (auto simp: paired_comparison_general split: sum.splits)
qed

text \<open>
  Thirty pairs with \<open>p = 0.0001\<close> and \<open>delta = 0.05\<close>: the sample size and the p-value pass,
  the effect size does not, and the result is not compliant.
\<close>

theorem C2_witness:
  "n_samples (projr (fst (paired_comparison (wilcoxon_returning (1 / 10000)) counter_draw 0
        lengths_lkh lengths_edge_rand ''eil51'' ''lkh'' ''EdgeRand''))) = 30
   \<and> p_value (projr (fst (paired_comparison (wilcoxon_returning (1 / 10000)) counter_draw 0
        lengths_lkh lengths_edge_rand ''eil51'' ''lkh'' ''EdgeRand''))) = 1 / 10000
   \<and> effect_size_cliffs_delta (projr (fst (paired_comparison (wilcoxon_returning (1 / 10000))
        counter_draw 0 lengths_lkh lengths_edge_rand ''eil51'' ''lkh'' ''EdgeRand''))) = 1 / 20
   \<and> \<not> protocol_compliant (projr (fst (paired_comparison (wilcoxon_returning (1 / 10000))
        counter_draw 0 lengths_lkh lengths_edge_rand ''eil51'' ''lkh'' ''EdgeRand'')))"
proof -
  let ?res = "fst (paired_comparison (wilcoxon_returning (1 / 10000)) counter_draw (0::nat)
        lengths_lkh lengths_edge_rand ''eil51'' ''lkh'' ''EdgeRand'')"
  have h: "?res = Inr (projr ?res)"
    by (simp add: paired_comparison_thirty)
  from C2_compliance_gate [OF h] show ?thesis
    by (simp add: paired_comparison_thirty thirty_lengths)
qed

text \<open>
  As stated, for every result, the statement fails on the separated degenerate case: three
  samples, and the result is compliant.
\<close>

theorem C2_three_samples_compliant:
  "fst (paired_comparison wilcoxon_raising counter_draw 0 [5, 5, 5] [9, 9, 9]
          ''eil51'' ''lkh'' ''EdgeRand'')
     = Inr \<lparr> sr_instance = ''eil51'', integrator_a = ''lkh'', integrator_b = ''EdgeRand'',
             n_samples = 3, p_value = 1 / 10 ^ 15, effect_size_cliffs_delta = 1,
             ci_95_lower = 0, ci_95_upper = 0, protocol_compliant = True \<rparr>
   \<and> \<not> (3::nat) \<ge> 30"
  by (simp add: paired_comparison_degenerate constant_555)

section \<open>The degenerate-variance policy\<close>

text \<open>
  C3. The degenerate-variance policy applies exactly when both sequences are constant,
  with an effect size whose sign follows the separation, and the general computation
  is used otherwise. As the code has it: the policy applies as soon as one of the two
  sequences is constant. Equal constants give \<open>p = 1\<close>, effect size \<open>0\<close>, interval
  \<open>(0, 0)\<close>, not compliant; every other degenerate pair gives \<open>p = 1e-15\<close>, the stored
  effect size \<open>1\<close>, interval \<open>(0, 0)\<close>, compliant, and the generator is not touched. The
  general computation (signed-rank p-value, Cliff's delta of the data, bootstrap
  interval) runs exactly when neither sequence is constant. When both sequences are
  constant and the first constant is the smaller, the stored \<open>1\<close> is Cliff's delta of
  the data.
\<close>

theorem C3_degenerate_policy:
  "(constant_seq a \<or> constant_seq b \<longrightarrow>
      paired_comparison W draw g a b inst na nb =
        (Inr \<lparr> sr_instance = inst, integrator_a = na, integrator_b = nb, n_samples = length a,
               p_value = (if constant_seq a \<and> constant_seq b \<and> hd a = hd b
                          then 1 else 1 / 10 ^ 15),
               effect_size_cliffs_delta =
                 (if constant_seq a \<and> constant_seq b \<and> hd a = hd b then 0 else 1),
               ci_95_lower = 0, ci_95_upper = 0,
               protocol_compliant = (\<not> (constant_seq a \<and> constant_seq b \<and> hd a = hd b)) \<rparr>,
         g))
   \<and> (\<not> constant_seq a \<and> \<not> constant_seq b \<longrightarrow>
      paired_comparison W draw g a b inst na nb =
        (case W a b of
           Inl e \<Rightarrow> (Inl e, g)
         | Inr p \<Rightarrow>
             (case cliffs_delta a b of
                Inl e \<Rightarrow> (Inl e, g)
              | Inr delta \<Rightarrow>
                  (Inr \<lparr> sr_instance = inst, integrator_a = na, integrator_b = nb,
                         n_samples = length a, p_value = p, effect_size_cliffs_delta = delta,
                         ci_95_lower = fst (fst (enforcer_bootstrap_ci draw g a b 10000)),
                         ci_95_upper = snd (fst (enforcer_bootstrap_ci draw g a b 10000)),
                         protocol_compliant =
                           (length a \<ge> 30 \<and> p < 1 / 1000 \<and> \<bar>delta\<bar> > 1 / 10) \<rparr>,
                   snd (enforcer_bootstrap_ci draw g a b 10000)))))
   \<and> (constant_seq a \<and> constant_seq b \<and> hd a < hd b \<longrightarrow> cliffs_delta a b = Inr 1)"
proof (intro conjI impI)
  assume "constant_seq a \<or> constant_seq b"
  then show "paired_comparison W draw g a b inst na nb =
        (Inr \<lparr> sr_instance = inst, integrator_a = na, integrator_b = nb, n_samples = length a,
               p_value = (if constant_seq a \<and> constant_seq b \<and> hd a = hd b
                          then 1 else 1 / 10 ^ 15),
               effect_size_cliffs_delta =
                 (if constant_seq a \<and> constant_seq b \<and> hd a = hd b then 0 else 1),
               ci_95_lower = 0, ci_95_upper = 0,
               protocol_compliant = (\<not> (constant_seq a \<and> constant_seq b \<and> hd a = hd b)) \<rparr>,
         g)"
    by (rule paired_comparison_degenerate)
next
  assume "\<not> constant_seq a \<and> \<not> constant_seq b"
  then have "\<not> constant_seq a" "\<not> constant_seq b" by simp_all
  then show "paired_comparison W draw g a b inst na nb =
        (case W a b of
           Inl e \<Rightarrow> (Inl e, g)
         | Inr p \<Rightarrow>
             (case cliffs_delta a b of
                Inl e \<Rightarrow> (Inl e, g)
              | Inr delta \<Rightarrow>
                  (Inr \<lparr> sr_instance = inst, integrator_a = na, integrator_b = nb,
                         n_samples = length a, p_value = p, effect_size_cliffs_delta = delta,
                         ci_95_lower = fst (fst (enforcer_bootstrap_ci draw g a b 10000)),
                         ci_95_upper = snd (fst (enforcer_bootstrap_ci draw g a b 10000)),
                         protocol_compliant =
                           (length a \<ge> 30 \<and> p < 1 / 1000 \<and> \<bar>delta\<bar> > 1 / 10) \<rparr>,
                   snd (enforcer_bootstrap_ci draw g a b 10000))))"
    by (rule paired_comparison_general)
next
  assume "constant_seq a \<and> constant_seq b \<and> hd a < hd b"
  then show "cliffs_delta a b = Inr 1"
    by (simp add: cliffs_delta_constant)
qed

text \<open>The two degenerate cases of the specification, and the thirty pairs above.\<close>

theorem C3_witness:
  "paired_comparison wilcoxon_raising counter_draw 0 [5, 5, 5] [5, 5, 5]
       ''eil51'' ''lkh'' ''EdgeRand''
     = (Inr \<lparr> sr_instance = ''eil51'', integrator_a = ''lkh'', integrator_b = ''EdgeRand'',
              n_samples = 3, p_value = 1, effect_size_cliffs_delta = 0,
              ci_95_lower = 0, ci_95_upper = 0, protocol_compliant = False \<rparr>, 0)
   \<and> paired_comparison wilcoxon_raising counter_draw 0 [5, 5, 5] [9, 9, 9]
       ''eil51'' ''lkh'' ''EdgeRand''
     = (Inr \<lparr> sr_instance = ''eil51'', integrator_a = ''lkh'', integrator_b = ''EdgeRand'',
              n_samples = 3, p_value = 1 / 10 ^ 15, effect_size_cliffs_delta = 1,
              ci_95_lower = 0, ci_95_upper = 0, protocol_compliant = True \<rparr>, 0)
   \<and> cliffs_delta [5, 5, 5] [9, 9, 9] = Inr 1
   \<and> fst (paired_comparison wilcoxon_raising counter_draw 0 lengths_lkh lengths_edge_rand
       ''eil51'' ''lkh'' ''EdgeRand'') = Inl (ValueError ''not consulted'')"
  using C3_degenerate_policy [of "[5, 5, 5]" "[5, 5, 5]" wilcoxon_raising counter_draw 0
          "''eil51''" "''lkh''" "''EdgeRand''"]
    C3_degenerate_policy [of "[5, 5, 5]" "[9, 9, 9]" wilcoxon_raising counter_draw 0
          "''eil51''" "''lkh''" "''EdgeRand''"]
    C3_degenerate_policy [of lengths_lkh lengths_edge_rand wilcoxon_raising counter_draw 0
          "''eil51''" "''lkh''" "''EdgeRand''"]
  by (simp add: constant_555 thirty_lengths wilcoxon_raising_def)

text \<open>
  As stated, the statement fails when one sequence only is constant: \<open>[1, 2, 3]\<close> holds three
  distinct values, and the result is the degenerate one, the signed-rank routine not
  being called. It fails on the sign as well: for \<open>[9, 9, 9]\<close> against \<open>[5, 5, 5]\<close> the
  stored effect size is \<open>1\<close> where Cliff's delta of the data is \<open>-1\<close>.
\<close>

theorem C3_one_constant_sequence_is_degenerate:
  "\<not> constant_seq [1, 2, 3]
   \<and> paired_comparison wilcoxon_raising counter_draw 0 [5, 5, 5] [1, 2, 3]
       ''eil51'' ''lkh'' ''EdgeRand''
     = (Inr \<lparr> sr_instance = ''eil51'', integrator_a = ''lkh'', integrator_b = ''EdgeRand'',
              n_samples = 3, p_value = 1 / 10 ^ 15, effect_size_cliffs_delta = 1,
              ci_95_lower = 0, ci_95_upper = 0, protocol_compliant = True \<rparr>, 0)
   \<and> paired_comparison wilcoxon_raising counter_draw 0 [9, 9, 9] [5, 5, 5]
       ''eil51'' ''lkh'' ''EdgeRand''
     = (Inr \<lparr> sr_instance = ''eil51'', integrator_a = ''lkh'', integrator_b = ''EdgeRand'',
              n_samples = 3, p_value = 1 / 10 ^ 15, effect_size_cliffs_delta = 1,
              ci_95_lower = 0, ci_95_upper = 0, protocol_compliant = True \<rparr>, 0)
   \<and> cliffs_delta [9, 9, 9] [5, 5, 5] = Inr (- 1)"
  by (simp add: paired_comparison_degenerate constant_555 cliffs_delta_constant)

text \<open>
  C8. For equal-length, non-empty sequences \<open>paired_comparison\<close> returns a result and
  never raises, all-zero differences being a recognised case. As the code has it: when
  one of the sequences is constant it returns, and the result depends on the two
  sequences alone (not on the signed-rank routine, not on the generator, whose state it
  leaves as it was); when neither is constant it calls the signed-rank routine on the
  data, returns a result carrying the p-value when the routine returns one, and raises
  what the routine raises.
\<close>

theorem C8_returns_or_raises:
  "(constant_seq a \<or> constant_seq b \<longrightarrow>
      (\<exists>r. paired_comparison W draw g a b inst na nb = (Inr r, g)
           \<and> fst (paired_comparison W' draw' g' a b inst na nb) = Inr r))
   \<and> (\<not> constant_seq a \<and> \<not> constant_seq b \<and> a \<noteq> [] \<and> b \<noteq> [] \<longrightarrow>
      (case W a b of
         Inl e \<Rightarrow> paired_comparison W draw g a b inst na nb = (Inl e, g)
       | Inr p \<Rightarrow> (\<exists>r. fst (paired_comparison W draw g a b inst na nb) = Inr r
                        \<and> p_value r = p)))"
proof (intro conjI impI)
  assume "constant_seq a \<or> constant_seq b"
  then show "\<exists>r. paired_comparison W draw g a b inst na nb = (Inr r, g)
           \<and> fst (paired_comparison W' draw' g' a b inst na nb) = Inr r"
    by (simp add: paired_comparison_degenerate)
next
  assume h: "\<not> constant_seq a \<and> \<not> constant_seq b \<and> a \<noteq> [] \<and> b \<noteq> []"
  then have "\<exists>d. cliffs_delta a b = Inr d" by (simp add: cliffs_delta_def)
  with h show "case W a b of
         Inl e \<Rightarrow> paired_comparison W draw g a b inst na nb = (Inl e, g)
       | Inr p \<Rightarrow> (\<exists>r. fst (paired_comparison W draw g a b inst na nb) = Inr r
                        \<and> p_value r = p)"
    by (auto simp: paired_comparison_general split: sum.splits)
qed

text \<open>
  Constant sequences with all differences zero, where the routine that rejects such
  differences is not reached, and the thirty pairs above.
\<close>

theorem C8_witness:
  "paired_comparison wilcoxon_rejecting_zeros counter_draw 0 [5, 5, 5] [5, 5, 5]
       ''eil51'' ''lkh'' ''EdgeRand''
     = (Inr \<lparr> sr_instance = ''eil51'', integrator_a = ''lkh'', integrator_b = ''EdgeRand'',
              n_samples = 3, p_value = 1, effect_size_cliffs_delta = 0,
              ci_95_lower = 0, ci_95_upper = 0, protocol_compliant = False \<rparr>, 0)
   \<and> p_value (projr (fst (paired_comparison (wilcoxon_returning (1 / 10000)) counter_draw 0
        lengths_lkh lengths_edge_rand ''eil51'' ''lkh'' ''EdgeRand''))) = 1 / 10000"
  using C8_returns_or_raises [of "[5, 5, 5]" "[5, 5, 5]" wilcoxon_rejecting_zeros counter_draw 0
          "''eil51''" "''lkh''" "''EdgeRand''" wilcoxon_raising counter_draw 7]
    C8_returns_or_raises [of lengths_lkh lengths_edge_rand "wilcoxon_returning (1 / 10000)"
          counter_draw 0 "''eil51''" "''lkh''" "''EdgeRand''" wilcoxon_raising counter_draw 7]
  by (simp add: paired_comparison_degenerate constant_555 paired_comparison_thirty)

text \<open>
  As stated, the statement fails for two equal sequences that are not constant: every
  paired difference is zero, the general computation is entered, and the exception of
  the signed-rank routine leaves \<open>paired_comparison\<close>.
\<close>

theorem C8_zero_differences_reach_signed_rank_test:
  "list_all (\<lambda>(x, y). x - y = 0) (zip [1, 2, 3] [1, 2, 3 :: real])
   \<and> paired_comparison wilcoxon_rejecting_zeros counter_draw 0 [1, 2, 3] [1, 2, 3]
       ''eil51'' ''lkh'' ''EdgeRand''
     = (Inl (ValueError ''zero_method wilcox does not work if x - y is zero for all elements.''), 0)"
  by (simp add: paired_comparison_general constant_555 wilcoxon_rejecting_zeros_def)

section \<open>The summary aggregator\<close>

text \<open>
  The enforcer's bootstrap reads the ambient generator: from two states of the counter
  generator it computes two different intervals, and it leaves the state advanced.
\<close>

lemma enforcer_bootstrap_reads_ambient_state:
  "enforcer_bootstrap_ci counter_draw 0 [1, 2] [3, 5] 1 = ((- 4, - 4), 4)"
  "enforcer_bootstrap_ci counter_draw 1 [1, 2] [3, 5] 1 = ((- (5 / 2), - (5 / 2)), 5)"
  by code_simp+

text \<open>
  C9. \<open>compute_summary_statistics\<close> is deterministic: the rows are a function of the
  frame alone. Whatever the state of the ambient generator, the rows are the same; the
  call leaves that state as it was, so that a second call made right after the first
  returns the same rows; every interval is computed from a generator that
  \<open>bootstrap_ci\<close> seeds with 42.
\<close>

theorem C9_summary_is_deterministic:
  "fst (compute_summary_statistics default_rng draw ambient df)
     = fst (compute_summary_statistics default_rng draw ambient' df)
   \<and> snd (compute_summary_statistics default_rng draw ambient df) = ambient
   \<and> fst (compute_summary_statistics default_rng draw
            (snd (compute_summary_statistics default_rng draw ambient df)) df)
     = fst (compute_summary_statistics default_rng draw ambient df)
   \<and> bootstrap_ci default_rng draw (x # y # data) n (95 / 100)
     = (np_percentile (resample_medians draw (default_rng 42) (x # y # data) n) (5 / 2),
        np_percentile (resample_medians draw (default_rng 42) (x # y # data) n) (195 / 2))"
  by (simp add: compute_summary_statistics_def bootstrap_ci_def Let_def)

end
